theory Spec2Isabelle
  imports Main
begin

section \<open>The report pipeline of generate\_reports.py\<close>

text \<open>
  The module requests a sales report from the marketplace service, waits for it, fetches
  it, and writes one row per message of the report into a local sqlite table. Its
  functions are embedded one by one, in the order of the file, as state-passing functions
  over a record \<open>world\<close> that holds everything a call can change or an observer can
  see: the two output streams, the calls made to the service and to \<open>time.sleep\<close>,
  and the database.

  The functions are embedded as Python evaluates their bodies when they are called:
  \<^item> a name that the module binds nowhere raises \<open>NameError\<close> where it is read. The
    module reads two such names in its functions: \<open>request_id\<close> (line 98; the
    parameter is \<open>report_request_id\<close>) and \<open>MWSError\<close> (the \<open>except\<close> clauses
    of lines 75, 100 and 121; the module imports \<open>mws\<close> only). \<open>binds\<close>
    below decides it from the names the module does bind;
  \<^item> \<open>cursor.commit()\<close> (lines 26 and 57) raises \<open>AttributeError\<close>: a cursor of
    \<open>sqlite3\<close> has no attribute \<open>commit\<close>;
  \<^item> \<open>print\<close> with a second positional argument writes both arguments to the
    standard output; \<open>sys.exit()\<close> without an argument raises \<open>SystemExit\<close> with
    status 0; the call of \<open>_process_report\<close> with two arguments raises \<open>TypeError\<close>.

  A function can only be called once the module is loaded. As it stands the file does
  not load (the \<open>except\<close> clause of line 58 has a comment for its body, and the base
  class \<open>Object\<close> of line 15 is bound nowhere); the embedding is of the functions
  behind these two lines, with the body of that \<open>except\<close> clause read as \<open>pass\<close>.
\<close>

subsection \<open>Exceptions, names and subscripting\<close>

text \<open>The exceptions that leave a function of the module.\<close>

datatype py_exn =
  SystemExit | KeyError | NameError | AttributeError | TypeError | ParseError
  | OperationalError

text \<open>
  Modelled from the spec: the two kinds of error that a call of the service client
  raises (the client library is not part of the module).
\<close>

datatype mws_error = AuthenticationError | TransientServiceError

definition str_exc :: "mws_error \<Rightarrow> string" where
  "str_exc exc =
     (case exc of
        AuthenticationError \<Rightarrow> ''AuthenticationError''
      | TransientServiceError \<Rightarrow> ''TransientServiceError'')"

text \<open>
  The names the module binds at its top level: by its \<open>import\<close> statements, the
  assignment of line 11, the class and the six functions. A name read in a function that
  is neither a local of the function nor one of these (nor a builtin) raises
  \<open>NameError\<close>.
\<close>

definition module_globals :: "string list" where
  "module_globals =
     [''datetime'', ''timedelta'', ''os'', ''sqlite3'', ''sys'', ''time'', ''ET'', ''mws'',
      ''_SLEEP_TIME'', ''Purchase'', ''_build_mws'', ''_open_db'', ''_request_report'',
      ''_poll_for_report'', ''_process_report'', ''main'']"

definition binds :: "string \<Rightarrow> bool" where
  "binds name = (name \<in> set module_globals)"

text \<open>\<open>d[k]\<close> on a dictionary raises \<open>KeyError\<close> for a missing key.\<close>

definition getitem :: "('k \<rightharpoonup> 'v) \<Rightarrow> 'k \<Rightarrow> py_exn + 'v" where
  "getitem d k = (case d k of None \<Rightarrow> Inl KeyError | Some v \<Rightarrow> Inr v)"

text \<open>\<open>response.parsed\<close>: a dictionary of dictionaries of dictionaries of strings.\<close>

type_synonym parsed = "string \<rightharpoonup> (string \<rightharpoonup> (string \<rightharpoonup> string))"

text \<open>\<open>parsed[a][b][c]\<close>, evaluated left to right.\<close>

definition subscript3 :: "parsed \<Rightarrow> string \<Rightarrow> string \<Rightarrow> string \<Rightarrow> py_exn + string" where
  "subscript3 d a b c =
     (case getitem d a of
        Inl e \<Rightarrow> Inl e
      | Inr d1 \<Rightarrow>
          (case getitem d1 b of
             Inl e \<Rightarrow> Inl e
           | Inr d2 \<Rightarrow> getitem d2 c))"

subsection \<open>The report payload\<close>

text \<open>
  An element of \<open>xml.etree.ElementTree\<close>: its tag, its text (\<open>None\<close> for an element
  without text) and its children in document order.
\<close>

datatype element = Element (tag: string) (elem_text: "string option") (children: "element list")

text \<open>\<open>ET.fromstring\<close> is modelled by its outcome: a root element, or \<open>ParseError\<close>.\<close>

datatype payload = NotWellFormed | Document element

definition fromstring :: "payload \<Rightarrow> py_exn + element" where
  "fromstring original =
     (case original of NotWellFormed \<Rightarrow> Inl ParseError | Document root \<Rightarrow> Inr root)"

text \<open>\<open>e.findall(t)\<close> for a plain tag: the direct children with that tag, in order.\<close>

definition findall :: "element \<Rightarrow> string \<Rightarrow> element list" where
  "findall e t = filter (\<lambda>c. tag c = t) (children e)"

text \<open>
  \<open>e.find('a/b')\<close>: the path is given as the list of its steps; each step moves to the
  children with the step's tag. The first match in document order is returned, \<open>None\<close>
  when there is none.
\<close>

fun iterfind :: "element list \<Rightarrow> string list \<Rightarrow> element list" where
  "iterfind es [] = es"
| "iterfind es (t # ts) = iterfind (concat (map (\<lambda>e. findall e t) es)) ts"

definition find_path :: "element \<Rightarrow> string list \<Rightarrow> element option" where
  "find_path e path = (case iterfind [e] path of [] \<Rightarrow> None | x # _ \<Rightarrow> Some x)"

text \<open>\<open>x.text\<close>, where \<open>x\<close> is the result of a \<open>find\<close>: on \<open>None\<close> it raises.\<close>

definition text_of :: "element option \<Rightarrow> py_exn + string option" where
  "text_of x = (case x of None \<Rightarrow> Inl AttributeError | Some e \<Rightarrow> Inr (elem_text e))"

subsection \<open>The service connection\<close>

text \<open>
  The connection object is given by what its three methods do when they are called:
  each returns an answer or raises an error of the client. The answer of
  \<open>get_report_request_list\<close> depends on how many status calls came before.
\<close>

record mws_conn =
  svc_request_report :: "mws_error + parsed"
  svc_get_report_request_list :: "nat \<Rightarrow> mws_error + parsed"
  svc_get_report :: "mws_error + payload"

subsection \<open>The observable state\<close>

text \<open>
  A row of the table \<open>purchases (order_id text, purchase_date text, sku text)\<close>. The
  table has no key and no uniqueness constraint.
\<close>

type_synonym row = "string option \<times> string option \<times> string option"

text \<open>
  The database file \<open>mws.db\<close> and the connection to it: \<open>durable\<close> is what the file
  holds, \<open>working\<close> is what the connection sees, its open transaction included
  (\<open>None\<close>: the table does not exist).
\<close>

record sqlite_db =
  working :: "row list option"
  durable :: "row list option"

text \<open>
  What a stream receives: the arguments of a \<open>print\<close>, or the traceback that the
  interpreter writes for an exception that nothing caught.
\<close>

datatype print_arg = Str string | StderrStream

datatype written = Printed "print_arg list" | Traceback py_exn

datatype event = RequestReport | GetReportRequestList | GetReport | Sleep nat | Connect

record world =
  stdout :: "written list"
  stderr :: "written list"
  trace :: "event list"
  db :: sqlite_db

definition record_event :: "event \<Rightarrow> world \<Rightarrow> world" where
  "record_event ev w = w\<lparr>trace := trace w @ [ev]\<rparr>"

definition status_calls :: "world \<Rightarrow> nat" where
  "status_calls w = count_list (trace w) GetReportRequestList"

text \<open>How often a connection to the database has been opened.\<close>

definition connections :: "world \<Rightarrow> nat" where
  "connections w = count_list (trace w) Connect"

text \<open>
  \<open>print(a, b, ...)\<close> with positional arguments only: all of them are written to the
  standard output, as one line.
\<close>

definition py_print :: "print_arg list \<Rightarrow> world \<Rightarrow> world" where
  "py_print args w = w\<lparr>stdout := stdout w @ [Printed args]\<rparr>"

definition sleep :: "nat \<Rightarrow> world \<Rightarrow> world" where
  "sleep seconds w = record_event (Sleep seconds) w"

definition SLEEP_TIME :: nat where
  "SLEEP_TIME = 3"

subsection \<open>sqlite3\<close>

text \<open>
  The calls the module makes on the connection and its cursor. A new connection sees
  what the file holds. \<open>CREATE TABLE\<close> raises \<open>OperationalError\<close> when the table
  exists; otherwise the table is created, and since \<open>sqlite3\<close> opens no transaction
  for such a statement the file holds it at once. \<open>INSERT\<close> raises
  \<open>OperationalError\<close> when there is no table; otherwise the row is appended in the
  transaction of the connection: the connection sees it, the file does not hold it
  until a commit. \<open>cursor.commit\<close> is an attribute that a cursor does not have:
  reading it raises \<open>AttributeError\<close>, and nothing is committed. The module calls no
  other commit.
\<close>

definition connect :: "sqlite_db \<Rightarrow> sqlite_db" where
  "connect d = d\<lparr>working := durable d\<rparr>"

definition execute_create_table :: "sqlite_db \<Rightarrow> py_exn + sqlite_db" where
  "execute_create_table d =
     (case working d of
        None \<Rightarrow> Inr (d\<lparr>working := Some [], durable := Some []\<rparr>)
      | Some rows \<Rightarrow> Inl OperationalError)"

definition execute_insert :: "row \<Rightarrow> sqlite_db \<Rightarrow> py_exn + sqlite_db" where
  "execute_insert r d =
     (case working d of
        None \<Rightarrow> Inl OperationalError
      | Some rows \<Rightarrow> Inr (d\<lparr>working := Some (rows @ [r])\<rparr>))"

definition cursor_commit :: "sqlite_db \<Rightarrow> py_exn + sqlite_db" where
  "cursor_commit d = Inl AttributeError"

subsection \<open>Purchase\<close>

record purchase =
  order_id :: "string option"
  purchase_date :: "string option"
  sku :: "string option"

definition values_of :: "purchase \<Rightarrow> row" where
  "values_of self = (order_id self, purchase_date self, sku self)"

text \<open>
  \<open>Purchase.write_to_db\<close>: the \<open>INSERT\<close>, then \<open>cursor.commit()\<close>. An exception of
  the second statement leaves the inserted row in the transaction of the connection.
\<close>

definition write_to_db :: "purchase \<Rightarrow> world \<Rightarrow> (py_exn + unit) \<times> world" where
  "write_to_db self w =
     (case execute_insert (values_of self) (db w) of
        Inl e \<Rightarrow> (Inl e, w)
      | Inr d \<Rightarrow>
          (case cursor_commit d of
             Inl e \<Rightarrow> (Inl e, w\<lparr>db := d\<rparr>)
           | Inr d' \<Rightarrow> (Inr (), w\<lparr>db := d'\<rparr>)))"

subsection \<open>The functions of the module\<close>

text \<open>
  \<open>_build_mws\<close>: three environment variables, then the client's constructor
  \<open>mws.Reports\<close>, which is a parameter here.
\<close>

definition build_mws ::
  "(string \<Rightarrow> string \<Rightarrow> string \<Rightarrow> mws_conn) \<Rightarrow> (string \<rightharpoonup> string) \<Rightarrow> py_exn + mws_conn" where
  "build_mws Reports environ =
     (case getitem environ ''MWS_ACCESS_KEY'' of
        Inl e \<Rightarrow> Inl e
      | Inr access_key \<Rightarrow>
          (case getitem environ ''MWS_SECRET_KEY'' of
             Inl e \<Rightarrow> Inl e
           | Inr secret_key \<Rightarrow>
               (case getitem environ ''MWS_SELLER_ID'' of
                  Inl e \<Rightarrow> Inl e
                | Inr account_id \<Rightarrow> Inr (Reports access_key secret_key account_id))))"

text \<open>
  \<open>_open_db\<close>: connects; in the \<open>try\<close>, \<open>CREATE TABLE\<close> and
  \<open>cursor.commit()\<close>; the \<open>except\<close> clause passes over an \<open>OperationalError\<close>
  and over nothing else.
\<close>

definition open_db :: "world \<Rightarrow> (py_exn + unit) \<times> world" where
  "open_db w =
     (let w1 = (record_event Connect w)\<lparr>db := connect (db w)\<rparr> in
      case execute_create_table (db w1) of
        Inl e \<Rightarrow> (if e = OperationalError then (Inr (), w1) else (Inl e, w1))
      | Inr d \<Rightarrow>
          (case cursor_commit d of
             Inl e \<Rightarrow>
               (if e = OperationalError then (Inr (), w1\<lparr>db := d\<rparr>)
                else (Inl e, w1\<lparr>db := d\<rparr>))
           | Inr d' \<Rightarrow> (Inr (), w1\<lparr>db := d'\<rparr>)))"

definition request_error_message :: "mws_error \<Rightarrow> string" where
  "request_error_message exc =
     ''Error requesting report from MWS.'' @ [CHR 0x0A, CHR 0x0A] @ str_exc exc"

definition request_list_error_message :: "mws_error \<Rightarrow> string" where
  "request_list_error_message exc =
     ''Error requesting report request list.'' @ [CHR 0x0A, CHR 0x0A] @ str_exc exc"

text \<open>
  \<open>_request_report\<close>. When the call raises, the clause \<open>except MWSError\<close> reads the
  name \<open>MWSError\<close> to match the exception against it: the handler runs only if the
  name is bound.
\<close>

definition request_report :: "mws_conn \<Rightarrow> world \<Rightarrow> (py_exn + string) \<times> world" where
  "request_report conn w =
     (let w1 = record_event RequestReport w in
      case svc_request_report conn of
        Inl exc \<Rightarrow>
          (if binds ''MWSError''
           then (Inl SystemExit,
                 py_print [Str (request_error_message exc), StderrStream] w1)
           else (Inl NameError, w1))
      | Inr response \<Rightarrow>
          (subscript3 response ''ReportRequestInfo'' ''ReportRequestId'' ''value'', w1))"

text \<open>
  The \<open>while True\<close> loop of \<open>_poll_for_report\<close>. The argument \<open>retry_count\<close> is the
  counter at the head of an iteration, before \<open>retry_count += 1\<close>. The argument list of
  the status call reads the name \<open>request_id\<close> before the call is made; its
  \<open>NameError\<close> is raised inside the \<open>try\<close> and is no error of the client, so it
  leaves the function whether or not \<open>MWSError\<close> is bound.
\<close>

function poll_loop :: "mws_conn \<Rightarrow> int \<Rightarrow> world \<Rightarrow> (py_exn + parsed) \<times> world" where
  "poll_loop conn retry_count w =
     (if binds ''request_id''
      then
        (case svc_get_report_request_list conn (status_calls w) of
           Inr response \<Rightarrow> (Inr response, record_event GetReportRequestList w)
         | Inl exc \<Rightarrow>
             (if binds ''MWSError''
              then
                (if retry_count + 1 = 3
                 then poll_loop conn (retry_count + 1)
                        (sleep SLEEP_TIME
                           (py_print [Str (request_list_error_message exc)]
                              (record_event GetReportRequestList w)))
                 else (Inl SystemExit,
                       py_print [Str (request_list_error_message exc)]
                         (record_event GetReportRequestList w)))
              else (Inl NameError, record_event GetReportRequestList w)))
      else (Inl NameError, w))"
  by pat_completeness auto
termination
  by (relation "measure (\<lambda>(conn, retry_count, w). nat (3 - retry_count))") auto

declare poll_loop.simps [simp del]

text \<open>\<open>_poll_for_report\<close>.\<close>

definition poll_for_report :: "mws_conn \<Rightarrow> string \<Rightarrow> world \<Rightarrow> (py_exn + string) \<times> world" where
  "poll_for_report conn report_request_id w =
     (case poll_loop conn 0 w of
        (Inl e, w1) \<Rightarrow> (Inl e, w1)
      | (Inr response, w1) \<Rightarrow>
          (subscript3 response ''ReportRequestInfo'' ''GeneratedReportId'' ''value'', w1))"

text \<open>The first four lines of the body of the \<open>for\<close> loop of \<open>_process_report\<close>.\<close>

definition message_purchase :: "element \<Rightarrow> py_exn + purchase" where
  "message_purchase message =
     (case text_of (find_path message [''Order'', ''AmazonOrderId'']) of
        Inl e \<Rightarrow> Inl e
      | Inr oid \<Rightarrow>
          (case text_of (find_path message [''Order'', ''PurchaseDate'']) of
             Inl e \<Rightarrow> Inl e
           | Inr pdate \<Rightarrow>
               (case text_of (find_path message [''OrderItem'', ''SKU'']) of
                  Inl e \<Rightarrow> Inl e
                | Inr s \<Rightarrow> Inr \<lparr>order_id = oid, purchase_date = pdate, sku = s\<rparr>)))"

text \<open>The \<open>for\<close> loop: each message is extracted and written before the next is looked at.\<close>

fun process_messages :: "element list \<Rightarrow> world \<Rightarrow> (py_exn + unit) \<times> world" where
  "process_messages [] w = (Inr (), w)"
| "process_messages (message # rest) w =
     (case message_purchase message of
        Inl e \<Rightarrow> (Inl e, w)
      | Inr p \<Rightarrow>
          (case write_to_db p w of
             (Inl e, w1) \<Rightarrow> (Inl e, w1)
           | (Inr u, w1) \<Rightarrow> process_messages rest w1))"

text \<open>\<open>_process_report\<close>; the connection \<open>db_conn\<close> is the one of the world.\<close>

definition process_report :: "mws_conn \<Rightarrow> string \<Rightarrow> world \<Rightarrow> (py_exn + unit) \<times> world" where
  "process_report conn report_id w =
     (let w1 = record_event GetReport w in
      case svc_get_report conn of
        Inl exc \<Rightarrow>
          (if binds ''MWSError''
           then (Inl SystemExit,
                 py_print [Str (request_error_message exc), StderrStream] w1)
           else (Inl NameError, w1))
      | Inr original \<Rightarrow>
          (case fromstring original of
             Inl e \<Rightarrow> (Inl e, w1)
           | Inr root \<Rightarrow> process_messages (findall root ''Message'') w1))"

text \<open>
  \<open>main\<close>. Its last statement calls \<open>_process_report\<close> with two arguments where the
  function has three parameters: the call raises \<open>TypeError\<close> before the body runs.
\<close>

definition main ::
  "(string \<Rightarrow> string \<Rightarrow> string \<Rightarrow> mws_conn) \<Rightarrow> (string \<rightharpoonup> string) \<Rightarrow> world
     \<Rightarrow> (py_exn + unit) \<times> world" where
  "main Reports environ w =
     (case build_mws Reports environ of
        Inl e \<Rightarrow> (Inl e, w)
      | Inr conn \<Rightarrow>
          (case request_report conn w of
             (Inl e, w1) \<Rightarrow> (Inl e, w1)
           | (Inr report_request_id, w1) \<Rightarrow>
               (case poll_for_report conn report_request_id w1 of
                  (Inl e, w2) \<Rightarrow> (Inl e, w2)
                | (Inr report_id, w2) \<Rightarrow>
                    (case open_db w2 of
                       (Inl e, w3) \<Rightarrow> (Inl e, w3)
                     | (Inr u, w3) \<Rightarrow> (Inl TypeError, w3)))))"

text \<open>
  The exit status of the interpreter: \<open>sys.exit()\<close> without an argument and a normal
  end give 0, an exception that nothing catches gives 1.
\<close>

definition exit_code :: "py_exn + 'a \<Rightarrow> nat" where
  "exit_code outcome =
     (case outcome of
        Inr v \<Rightarrow> 0
      | Inl e \<Rightarrow> (if e = SystemExit then 0 else 1))"

text \<open>
  The run of the script (lines 150 and 151): \<open>main()\<close>, and what the interpreter does
  at its end: for an exception that nothing caught it writes the traceback to the
  standard error. The result is the exit status and the final world.
\<close>

definition script ::
  "(string \<Rightarrow> string \<Rightarrow> string \<Rightarrow> mws_conn) \<Rightarrow> (string \<rightharpoonup> string) \<Rightarrow> world \<Rightarrow> nat \<times> world" where
  "script Reports environ w =
     (case main Reports environ w of
        (Inr u, w1) \<Rightarrow> (exit_code (Inr u :: py_exn + unit), w1)
      | (Inl e, w1) \<Rightarrow>
          (exit_code (Inl e :: py_exn + unit),
           if e = SystemExit then w1 else w1\<lparr>stderr := stderr w1 @ [Traceback e]\<rparr>))"

subsection \<open>Concrete inputs\<close>

text \<open>A database whose table exists and holds the given rows, all of them committed.\<close>

definition table :: "row list \<Rightarrow> sqlite_db" where
  "table rows = \<lparr>working = Some rows, durable = Some rows\<rparr>"

definition empty_world :: world where
  "empty_world =
     \<lparr>stdout = [], stderr = [], trace = [], db = \<lparr>working = None, durable = None\<rparr>\<rparr>"

definition table_world :: "row list \<Rightarrow> world" where
  "table_world rows = empty_world\<lparr>db := table rows\<rparr>"

definition purchase_A1 :: purchase where
  "purchase_A1 =
     \<lparr>order_id = Some ''A-1'', purchase_date = Some ''2023-01-01T00:00:00'',
      sku = Some ''SKU1''\<rparr>"

text \<open>
  Modelled from the spec: the answers of the service, which the module only subscripts.
  The answer to a report request carries the request id; the answer to a status call
  carries the status, and the generated report id only when one is given (the spec:
  only when the status is \<open>DONE\<close>).
\<close>

definition request_response :: "string \<Rightarrow> parsed" where
  "request_response request_id =
     [''ReportRequestInfo'' \<mapsto> [''ReportRequestId'' \<mapsto> [''value'' \<mapsto> request_id]]]"

definition status_response :: "string \<Rightarrow> string option \<Rightarrow> parsed" where
  "status_response status generated =
     [''ReportRequestInfo'' \<mapsto>
        (case generated of
           None \<Rightarrow> [''ReportProcessingStatus'' \<mapsto> [''value'' \<mapsto> status]]
         | Some report_id \<Rightarrow>
             [''ReportProcessingStatus'' \<mapsto> [''value'' \<mapsto> status],
              ''GeneratedReportId'' \<mapsto> [''value'' \<mapsto> report_id]])]"

text \<open>The \<open>k\<close>-th answer of a service that gives \<open>xs\<close> first and \<open>later\<close> from then on.\<close>

definition answers :: "'a list \<Rightarrow> 'a \<Rightarrow> nat \<Rightarrow> 'a" where
  "answers xs later k = (if k < length xs then xs ! k else later)"

text \<open>
  A message element in the shape the module reads: an \<open>Order\<close> with \<open>AmazonOrderId\<close>
  and \<open>PurchaseDate\<close>, and an \<open>OrderItem\<close> with \<open>SKU\<close>; and one whose \<open>OrderItem\<close>
  has no \<open>SKU\<close>.
\<close>

definition message :: "string \<Rightarrow> string \<Rightarrow> string \<Rightarrow> element" where
  "message oid pdate s =
     Element ''Message'' None
       [Element ''Order'' None
          [Element ''AmazonOrderId'' (Some oid) [], Element ''PurchaseDate'' (Some pdate) []],
        Element ''OrderItem'' None [Element ''SKU'' (Some s) []]]"


definition two_message_report :: element where
  "two_message_report =
     Element ''AmazonEnvelope'' None
       [message ''A-1'' ''2023-01-01T00:00:00'' ''SKU1'',
        message ''A-2'' ''2023-01-02T00:00:00'' ''SKU2'']"



text \<open>
  Services: one whose every call returns at once with a finished report of two
  messages, and variants of it: with a report whose second message, or whose first
  message, lacks the SKU; with a status call that always raises; with the status
  sequence SUBMITTED, IN\_PROGRESS, IN\_PROGRESS, DONE; with a report that stays
  IN\_PROGRESS; and with credentials that are rejected.
\<close>

definition conn_two_messages :: mws_conn where
  "conn_two_messages =
     \<lparr>svc_request_report = Inr (request_response ''REQ1''),
      svc_get_report_request_list = (\<lambda>k. Inr (status_response ''DONE'' (Some ''RPT1''))),
      svc_get_report = Inr (Document two_message_report)\<rparr>"



definition conn_always_failing :: mws_conn where
  "conn_always_failing =
     conn_two_messages\<lparr>svc_get_report_request_list := (\<lambda>k. Inl TransientServiceError)\<rparr>"

definition conn_four_statuses :: mws_conn where
  "conn_four_statuses =
     conn_two_messages\<lparr>svc_get_report_request_list :=
       (\<lambda>k. Inr (answers
          [status_response ''SUBMITTED'' None, status_response ''IN_PROGRESS'' None,
           status_response ''IN_PROGRESS'' None]
          (status_response ''DONE'' (Some ''RPT1'')) k))\<rparr>"


definition conn_auth_rejected :: mws_conn where
  "conn_auth_rejected = conn_two_messages\<lparr>svc_request_report := Inl AuthenticationError\<rparr>"

definition environ_set :: "string \<rightharpoonup> string" where
  "environ_set =
     [''MWS_ACCESS_KEY'' \<mapsto> ''access'', ''MWS_SECRET_KEY'' \<mapsto> ''secret'',
      ''MWS_SELLER_ID'' \<mapsto> ''seller'']"

section \<open>Properties\<close>

subsection \<open>Auxiliary facts\<close>

text \<open>The two names that the functions read and the module does not bind.\<close>

lemma not_binds_request_id: "\<not> binds ''request_id''"
  by (simp add: binds_def module_globals_def)

lemma not_binds_MWSError: "\<not> binds ''MWSError''"
  by (simp add: binds_def module_globals_def)

text \<open>
  \<open>write_to_db\<close> never returns: without a table the \<open>INSERT\<close> raises, with a table
  the row is inserted and \<open>cursor.commit()\<close> raises.
\<close>

lemma write_to_db_raises:
  "write_to_db p w =
     (case working (db w) of
        None \<Rightarrow> (Inl OperationalError, w)
      | Some rows \<Rightarrow>
          (Inl AttributeError, w\<lparr>db := (db w)\<lparr>working := Some (rows @ [values_of p])\<rparr>\<rparr>))"
  by (simp add: write_to_db_def execute_insert_def cursor_commit_def split: option.splits)

lemma message_purchase_message:
  "message_purchase (message oid pdate s)
     = Inr \<lparr>order_id = Some oid, purchase_date = Some pdate, sku = Some s\<rparr>"
  by (simp add: message_purchase_def message_def find_path_def findall_def text_of_def)




lemma findall_two_message_report:
  "findall two_message_report ''Message''
     = [message ''A-1'' ''2023-01-01T00:00:00'' ''SKU1'',
        message ''A-2'' ''2023-01-02T00:00:00'' ''SKU2'']"
  by (simp add: findall_def two_message_report_def message_def)



text \<open>
  The loop never reaches its second message: the first one either fails to extract or
  is handed to \<open>write_to_db\<close>, which raises.
\<close>

lemma process_messages_first:
  "process_messages (m # rest) w =
     (case message_purchase m of Inl e \<Rightarrow> (Inl e, w) | Inr p \<Rightarrow> write_to_db p w)"
  by (simp add: write_to_db_raises split: sum.splits option.splits)



text \<open>The poll loop ends where it reads \<open>request_id\<close>, before the first status call.\<close>

lemma poll_loop_raises: "poll_loop conn retry_count w = (Inl NameError, w)"
  by (subst poll_loop.simps) (simp add: not_binds_request_id)

lemma poll_for_report_raises: "poll_for_report conn rid w = (Inl NameError, w)"
  by (simp add: poll_for_report_def poll_loop_raises)

lemma request_report_eval:
  "request_report conn w =
     (case svc_request_report conn of
        Inl exc \<Rightarrow> (Inl NameError, record_event RequestReport w)
      | Inr response \<Rightarrow>
          (subscript3 response ''ReportRequestInfo'' ''ReportRequestId'' ''value'',
           record_event RequestReport w))"
  by (simp add: request_report_def not_binds_MWSError split: sum.splits)

lemma subscript3_cases:
  "subscript3 d a b c = Inl KeyError \<or> (\<exists>v. subscript3 d a b c = Inr v)"
  by (simp add: subscript3_def getitem_def split: option.splits)

lemma request_report_outcome:
  "fst (request_report conn w) = Inl NameError
   \<or> fst (request_report conn w) = Inl KeyError
   \<or> (\<exists>rid. fst (request_report conn w) = Inr rid)"
  using subscript3_cases [of _ "''ReportRequestInfo''" "''ReportRequestId''" "''value''"]
  by (auto simp: request_report_eval split: sum.splits)

lemma request_report_frame:
  "db (snd (request_report conn w)) = db w
   \<and> connections (snd (request_report conn w)) = connections w
   \<and> stdout (snd (request_report conn w)) = stdout w
   \<and> stderr (snd (request_report conn w)) = stderr w"
  by (simp add: request_report_eval record_event_def connections_def split: sum.splits)

lemma build_mws_outcome:
  "build_mws Reports environ = Inl KeyError \<or> (\<exists>conn. build_mws Reports environ = Inr conn)"
  by (simp add: build_mws_def getitem_def split: option.splits)

lemma build_mws_environ_set: "build_mws (\<lambda>a b c. conn) environ_set = Inr conn"
  by (simp add: build_mws_def environ_set_def getitem_def)

text \<open>
  \<open>main\<close> ends in the environment lookup, in the report request, or in the poll; it
  never gets as far as \<open>_open_db\<close>.
\<close>

lemma main_eval:
  "main Reports environ w =
     (case build_mws Reports environ of
        Inl e \<Rightarrow> (Inl e, w)
      | Inr conn \<Rightarrow>
          (case request_report conn w of
             (Inl e, w1) \<Rightarrow> (Inl e, w1)
           | (Inr rid, w1) \<Rightarrow> (Inl NameError, w1)))"
  by (simp add: main_def poll_for_report_raises split: sum.splits prod.splits)

lemma main_outcome:
  "fst (main Reports environ w) = Inl NameError \<or> fst (main Reports environ w) = Inl KeyError"
proof (cases "build_mws Reports environ")
  case (Inl e)
  with build_mws_outcome [of Reports environ] show ?thesis
    by (simp add: main_eval)
next
  case (Inr conn)
  with request_report_outcome [of conn w] show ?thesis
    by (cases "request_report conn w") (auto simp: main_eval)
qed

lemma main_frame:
  "stdout (snd (main Reports environ w)) = stdout w
   \<and> stderr (snd (main Reports environ w)) = stderr w
   \<and> db (snd (main Reports environ w)) = db w
   \<and> connections (snd (main Reports environ w)) = connections w"
proof (cases "build_mws Reports environ")
  case (Inl e)
  then show ?thesis
    by (simp add: main_eval)
next
  case (Inr conn)
  with request_report_frame [of conn w] show ?thesis
    by (cases "request_report conn w") (auto simp: main_eval split: sum.splits)
qed

lemma main_auth_rejected:
  "main (\<lambda>access_key secret_key account_id. conn_auth_rejected) environ_set empty_world
     = (Inl NameError, empty_world\<lparr>trace := [RequestReport]\<rparr>)"
  by (simp add: main_eval build_mws_environ_set request_report_eval conn_auth_rejected_def
      record_event_def empty_world_def)

subsection \<open>C1: writing the same record twice\<close>

text \<open>
  C1 (as stated, refuted). The claim: writing a record whose order id and SKU are in the
  table already changes nothing and produces no duplicate row. On a connection whose
  table exists and is empty, \<open>write_to_db\<close> of the record (A-1, 2023-01-01T00:00:00,
  SKU1) called twice leaves a world that differs from the world after the first call:
  the table that the connection sees holds the row twice.
\<close>

theorem write_to_db_twice_two_rows:
  "snd (write_to_db purchase_A1 (snd (write_to_db purchase_A1 (table_world []))))
     \<noteq> snd (write_to_db purchase_A1 (table_world []))
   \<and> working (db (snd (write_to_db purchase_A1
                         (snd (write_to_db purchase_A1 (table_world []))))))
     = Some [(Some ''A-1'', Some ''2023-01-01T00:00:00'', Some ''SKU1''),
             (Some ''A-1'', Some ''2023-01-01T00:00:00'', Some ''SKU1'')]"
  by (simp add: write_to_db_raises table_def table_world_def empty_world_def
      purchase_A1_def values_of_def)

text \<open>
  C1 (amended). The statement that \<open>write_to_db\<close> executes is a plain \<open>INSERT\<close>: on
  a connection whose table exists, every call adds its record as a new row to the table
  that the connection sees, whether or not a row with the same order id and SKU is there
  already; a second call with the same record adds the same row again, so the number of
  rows grows by one with each call.
\<close>

theorem write_to_db_inserts_every_time:
  assumes "working (db w) = Some rows"
  shows "working (db (snd (write_to_db p w))) = Some (rows @ [values_of p])
       \<and> working (db (snd (write_to_db p (snd (write_to_db p w)))))
           = Some (rows @ [values_of p, values_of p])"
  using assms by (simp add: write_to_db_raises)

text \<open>The amended C1 at the record A-1, on a table that exists and is empty.\<close>

theorem write_to_db_inserts_every_time_witness:
  "working (db (table_world [])) = Some []
   \<and> working (db (snd (write_to_db purchase_A1 (table_world []))))
       = Some [values_of purchase_A1]
   \<and> working (db (snd (write_to_db purchase_A1
                          (snd (write_to_db purchase_A1 (table_world []))))))
       = Some [values_of purchase_A1, values_of purchase_A1]"
proof -
  have h: "working (db (table_world [])) = Some []"
    by (simp add: table_world_def table_def)
  from write_to_db_inserts_every_time [OF h, of purchase_A1] h show ?thesis
    by simp
qed

subsection \<open>C2: the status call raises every time\<close>

text \<open>
  C2 (the code departs from the claim). The claim: when every status call raises a
  transient error, the poller gives up after exactly the fourth failing attempt. In the
  module the first pass of the loop reads the name \<open>request_id\<close> to build the
  arguments of the status call; the module binds no such name (the parameter is
  \<open>report_request_id\<close>), so \<open>NameError\<close> leaves the function before the first
  attempt: on the service whose status call always raises, the poller ends with
  \<open>NameError\<close>, having made no status call, printed nothing and slept never.
\<close>

theorem poll_raises_before_first_attempt:
  "poll_for_report conn_always_failing ''REQ1'' empty_world = (Inl NameError, empty_world)
   \<and> status_calls (snd (poll_for_report conn_always_failing ''REQ1'' empty_world)) = 0"
  by (simp add: poll_for_report_raises status_calls_def empty_world_def)

subsection \<open>C3: the status sequence SUBMITTED, IN\_PROGRESS, IN\_PROGRESS, DONE\<close>

text \<open>
  C3 (the code departs from the claim). The claim: on the status sequence SUBMITTED,
  IN\_PROGRESS, IN\_PROGRESS, DONE the poller makes four status calls and returns the
  report id that comes with DONE. On that service the poller makes no status call and
  returns nothing: it ends with the \<open>NameError\<close> of the unbound \<open>request_id\<close>.
\<close>

theorem poll_makes_no_status_call:
  "poll_for_report conn_four_statuses ''REQ1'' empty_world = (Inl NameError, empty_world)
   \<and> status_calls (snd (poll_for_report conn_four_statuses ''REQ1'' empty_world)) = 0"
  by (simp add: poll_for_report_raises status_calls_def empty_world_def)

subsection \<open>C4: a message without SKU\<close>



subsection \<open>C5: two well-formed messages\<close>

text \<open>
  C5 (the code departs from the claim). The claim: for the payload with the two
  well-formed messages A-1 and A-2 the two purchase records are produced, in document
  order. On that payload, with a table that exists and is empty, \<open>_process_report\<close>
  builds the record of the first message, inserts it, and ends with the
  \<open>AttributeError\<close> of \<open>cursor.commit()\<close>: the record of the second message is
  never built, and the one row that the connection sees is not committed.
\<close>

theorem second_record_never_built:
  "process_report conn_two_messages ''RPT1'' (table_world [])
     = (Inl AttributeError,
        (record_event GetReport (table_world []))
          \<lparr>db := \<lparr>working = Some [(Some ''A-1'', Some ''2023-01-01T00:00:00'', Some ''SKU1'')],
                  durable = Some []\<rparr>\<rparr>)"
  by (simp add: process_report_def conn_two_messages_def fromstring_def
      findall_two_message_report process_messages_first message_purchase_message
      write_to_db_raises record_event_def table_world_def table_def values_of_def)

subsection \<open>C6: the exit status\<close>


subsection \<open>C7: rejected credentials\<close>



subsection \<open>C8: a report that is never done\<close>




subsection \<open>C9: where the diagnostics go\<close>

text \<open>
  C9. No run writes anything to the standard output: the three \<open>print\<close> calls of the
  module stand in handlers that are never entered. For every failing run (exit status
  other than 0) the diagnostic of the failure is the traceback of the exception that
  ended \<open>main\<close>, and it is written to the standard error.
\<close>

theorem failure_diagnostics_on_stderr:
  "stdout (snd (script Reports environ w)) = stdout w
   \<and> (fst (script Reports environ w) \<noteq> 0
        \<longrightarrow> (\<exists>e. fst (main Reports environ w) = Inl e
                 \<and> stderr (snd (script Reports environ w)) = stderr w @ [Traceback e]))"
proof -
  obtain r w1 where m: "main Reports environ w = (r, w1)"
    by (cases "main Reports environ w")
  from main_frame [of Reports environ w] m
  have f: "stdout w1 = stdout w" "stderr w1 = stderr w"
    by simp_all
  from main_outcome [of Reports environ w] m
  have "r = Inl NameError \<or> r = Inl KeyError"
    by simp
  with m f show ?thesis
    by (auto simp: script_def exit_code_def)
qed

text \<open>C9 at the service that rejects the credentials, from the empty world.\<close>

theorem failure_diagnostics_on_stderr_witness:
  "fst (script (\<lambda>access_key secret_key account_id. conn_auth_rejected) environ_set empty_world)
     \<noteq> 0
   \<and> stdout (snd (script (\<lambda>access_key secret_key account_id. conn_auth_rejected)
                     environ_set empty_world)) = []
   \<and> stderr (snd (script (\<lambda>access_key secret_key account_id. conn_auth_rejected)
                     environ_set empty_world)) = [Traceback NameError]"
proof -
  have h: "fst (script (\<lambda>access_key secret_key account_id. conn_auth_rejected) environ_set
      empty_world) \<noteq> 0"
    by (simp add: script_def main_auth_rejected exit_code_def)
  note t = failure_diagnostics_on_stderr
    [of "\<lambda>access_key secret_key account_id. conn_auth_rejected" environ_set empty_world]
  have a: "stdout (snd (script (\<lambda>access_key secret_key account_id. conn_auth_rejected)
                     environ_set empty_world)) = []"
    using t by (simp add: empty_world_def)
  from t h have "\<exists>e. fst (main (\<lambda>access_key secret_key account_id. conn_auth_rejected)
        environ_set empty_world) = Inl e
      \<and> stderr (snd (script (\<lambda>access_key secret_key account_id. conn_auth_rejected)
                     environ_set empty_world)) = stderr empty_world @ [Traceback e]"
    by blast
  then obtain e where e: "fst (main (\<lambda>access_key secret_key account_id. conn_auth_rejected)
        environ_set empty_world) = Inl e"
    and err: "stderr (snd (script (\<lambda>access_key secret_key account_id. conn_auth_rejected)
                     environ_set empty_world)) = stderr empty_world @ [Traceback e]"
    by blast
  from e have "e = NameError"
    by (simp add: main_auth_rejected)
  moreover have "stderr empty_world = []"
    by (simp add: empty_world_def)
  ultimately have b: "stderr (snd (script (\<lambda>access_key secret_key account_id.
      conn_auth_rejected) environ_set empty_world)) = [Traceback NameError]"
    using err by simp
  from h a b show ?thesis
    by blast
qed

subsection \<open>C10: when the database is opened\<close>

text \<open>
  C10. In \<open>main\<close> the database is opened only after the report request and the poll
  have both returned: if the report request fails, or if it returns and the poll fails,
  then at the end of the run the database is what it was and no connection to it has
  been opened.
\<close>

theorem db_opened_only_after_poll:
  assumes "build_mws Reports environ = Inr conn"
  shows "(fst (request_report conn w) = Inl e
            \<longrightarrow> db (snd (main Reports environ w)) = db w
              \<and> connections (snd (main Reports environ w)) = connections w)
       \<and> (request_report conn w = (Inr rid, w1) \<and> fst (poll_for_report conn rid w1) = Inl e
            \<longrightarrow> db (snd (main Reports environ w)) = db w
              \<and> connections (snd (main Reports environ w)) = connections w)"
proof -
  obtain r1 w1' where req: "request_report conn w = (r1, w1')"
    by (cases "request_report conn w")
  from request_report_frame [of conn w] req
  have f1: "db w1' = db w" "connections w1' = connections w"
    by simp_all
  show ?thesis
  proof (cases r1)
    case (Inl e1)
    with req assms have "main Reports environ w = (Inl e1, w1')"
      by (simp add: main_def)
    with req Inl f1 show ?thesis
      by simp
  next
    case (Inr request_id)
    obtain r2 w2' where poll: "poll_for_report conn request_id w1' = (r2, w2')"
      by (cases "poll_for_report conn request_id w1'")
    from poll poll_for_report_raises [of conn request_id w1'] f1
    have f2: "db w2' = db w" "connections w2' = connections w"
      by simp_all
    show ?thesis
    proof (cases r2)
      case (Inl e2)
      with req Inr poll assms have "main Reports environ w = (Inl e2, w2')"
        by (simp add: main_def)
      with req Inr poll f2 show ?thesis
        by auto
    next
      case (Inr report_id)
      with poll poll_for_report_raises [of conn request_id w1'] show ?thesis
        by simp
    qed
  qed
qed

text \<open>
  C10 at two services: one at which the report request fails (credentials rejected),
  and one at which the request returns and the poll fails.
\<close>

theorem db_opened_only_after_poll_witness:
  "build_mws (\<lambda>access_key secret_key account_id. conn_auth_rejected) environ_set
     = Inr conn_auth_rejected
   \<and> fst (request_report conn_auth_rejected empty_world) = Inl NameError
   \<and> db (snd (main (\<lambda>access_key secret_key account_id. conn_auth_rejected)
                 environ_set empty_world)) = db empty_world
   \<and> connections (snd (main (\<lambda>access_key secret_key account_id. conn_auth_rejected)
                          environ_set empty_world)) = connections empty_world
   \<and> request_report conn_two_messages empty_world
       = (Inr ''REQ1'', record_event RequestReport empty_world)
   \<and> fst (poll_for_report conn_two_messages ''REQ1'' (record_event RequestReport empty_world))
       = Inl NameError
   \<and> db (snd (main (\<lambda>access_key secret_key account_id. conn_two_messages)
                 environ_set empty_world)) = db empty_world
   \<and> connections (snd (main (\<lambda>access_key secret_key account_id. conn_two_messages)
                          environ_set empty_world)) = connections empty_world"
proof -
  have a1: "fst (request_report conn_auth_rejected empty_world) = Inl NameError"
    by (simp add: request_report_eval conn_auth_rejected_def)
  have b1: "request_report conn_two_messages empty_world
       = (Inr ''REQ1'', record_event RequestReport empty_world)"
    by (simp add: request_report_eval conn_two_messages_def request_response_def
        subscript3_def getitem_def)
  have b2: "fst (poll_for_report conn_two_messages ''REQ1''
       (record_event RequestReport empty_world)) = Inl NameError"
    by (simp add: poll_for_report_raises)
  note a = db_opened_only_after_poll [OF build_mws_environ_set,
      where conn = conn_auth_rejected and w = empty_world and e = NameError,
      THEN conjunct1, rule_format, OF a1]
  note b = db_opened_only_after_poll [OF build_mws_environ_set,
      where conn = conn_two_messages and w = empty_world and e = NameError
        and rid = "''REQ1''" and ?w1.0 = "record_event RequestReport empty_world",
      THEN conjunct2, rule_format, OF conjI [OF b1 b2]]
  from build_mws_environ_set [of conn_auth_rejected] a1 a b1 b2 b show ?thesis
    by blast
qed

end
